theory Spec2Isabelle
  imports Complex_Main
begin

section \<open>Python floats\<close>

text \<open>
  The module \<^verbatim>\<open>four_vector.py\<close> computes with Python floats (IEEE-754 binary64) and the
  functions of the \<^verbatim>\<open>math\<close> module. A float is modelled by the value it denotes: a real
  number, negative zero, an infinity or NaN. \<open>Fin 0\<close> is \<^verbatim>\<open>0.0\<close> and \<open>NZero\<close> is
  \<^verbatim>\<open>-0.0\<close>. Every operation follows IEEE-754 and CPython on the special values and the
  signs of zero, and returns the exact real result on finite operands: the rounding of
  a result to 53 bits and the limited exponent range (overflow to an infinity or to
  \<^verbatim>\<open>OverflowError\<close>, underflow to zero) are not part of the model. An integer argument
  denotes the float of the same value.
\<close>

datatype pyfloat = Fin real | NZero | PInf | NInf | NaN

datatype pyerror = ValueError | ZeroDivisionError | TypeError | AttributeError

fun val :: "pyfloat \<Rightarrow> real" where
  "val (Fin r) = r"
| "val NZero = 0"
| "val PInf = 0"
| "val NInf = 0"
| "val NaN = 0"

fun is_finite :: "pyfloat \<Rightarrow> bool" where
  "is_finite (Fin r) = True"
| "is_finite NZero = True"
| "is_finite PInf = False"
| "is_finite NInf = False"
| "is_finite NaN = False"

fun is_inf :: "pyfloat \<Rightarrow> bool" where
  "is_inf PInf = True"
| "is_inf NInf = True"
| "is_inf (Fin r) = False"
| "is_inf NZero = False"
| "is_inf NaN = False"

fun is_zero :: "pyfloat \<Rightarrow> bool" where
  "is_zero (Fin r) = (r = 0)"
| "is_zero NZero = True"
| "is_zero PInf = False"
| "is_zero NInf = False"
| "is_zero NaN = False"

text \<open>The sign bit, as \<^verbatim>\<open>copysign(1., x)\<close> reads it.\<close>

fun signbit :: "pyfloat \<Rightarrow> bool" where
  "signbit (Fin r) = (r < 0)"
| "signbit NZero = True"
| "signbit PInf = False"
| "signbit NInf = True"
| "signbit NaN = False"

text \<open>A zero and an infinity of a given sign.\<close>

definition zero_of :: "bool \<Rightarrow> pyfloat" where
  "zero_of neg = (if neg then NZero else Fin 0)"

definition inf_of :: "bool \<Rightarrow> pyfloat" where
  "inf_of neg = (if neg then NInf else PInf)"

text \<open>The finite float of value \<open>r\<close> with the sign \<open>neg\<close> where \<open>r\<close> is zero.\<close>

definition fin_of :: "bool \<Rightarrow> real \<Rightarrow> pyfloat" where
  "fin_of neg r = (if r = 0 then zero_of neg else Fin r)"

subsection \<open>Comparisons\<close>

text \<open>\<^verbatim>\<open>x == y\<close>: NaN equals nothing, the two zeros are equal.\<close>

definition feq :: "pyfloat \<Rightarrow> pyfloat \<Rightarrow> bool" where
  "feq x y = (x \<noteq> NaN \<and> y \<noteq> NaN \<and> (x = y \<or> (is_zero x \<and> is_zero y)))"

text \<open>\<^verbatim>\<open>x != y\<close>.\<close>

definition fne :: "pyfloat \<Rightarrow> pyfloat \<Rightarrow> bool" where
  "fne x y = (\<not> feq x y)"

text \<open>\<^verbatim>\<open>x < y\<close>: false when either side is NaN.\<close>

fun flt :: "pyfloat \<Rightarrow> pyfloat \<Rightarrow> bool" where
  "flt NaN y = False"
| "flt x NaN = False"
| "flt PInf y = False"
| "flt x NInf = False"
| "flt NInf y = True"
| "flt x PInf = True"
| "flt x y = (val x < val y)"

text \<open>\<^verbatim>\<open>x > y\<close> and \<^verbatim>\<open>x >= y\<close>.\<close>

definition fgt :: "pyfloat \<Rightarrow> pyfloat \<Rightarrow> bool" where
  "fgt x y = flt y x"

definition fge :: "pyfloat \<Rightarrow> pyfloat \<Rightarrow> bool" where
  "fge x y = (flt y x \<or> feq x y)"

text \<open>
  The builtin \<^verbatim>\<open>max(a, b)\<close> of two arguments keeps \<open>a\<close> unless \<^verbatim>\<open>b > a\<close>; so a NaN in
  first place is returned.
\<close>

definition pymax :: "pyfloat \<Rightarrow> pyfloat \<Rightarrow> pyfloat" where
  "pymax a b = (if fgt b a then b else a)"

subsection \<open>Arithmetic\<close>

text \<open>Unary minus flips the sign bit.\<close>

fun fneg :: "pyfloat \<Rightarrow> pyfloat" where
  "fneg (Fin r) = (if r = 0 then NZero else Fin (- r))"
| "fneg NZero = Fin 0"
| "fneg PInf = NInf"
| "fneg NInf = PInf"
| "fneg NaN = NaN"

text \<open>\<^verbatim>\<open>abs(x)\<close> clears the sign bit.\<close>

fun fabs :: "pyfloat \<Rightarrow> pyfloat" where
  "fabs (Fin r) = Fin \<bar>r\<bar>"
| "fabs NZero = Fin 0"
| "fabs PInf = PInf"
| "fabs NInf = PInf"
| "fabs NaN = NaN"

text \<open>
  \<^verbatim>\<open>x + y\<close>: opposite infinities give NaN; a zero sum is \<^verbatim>\<open>-0.0\<close> only when both
  operands are \<^verbatim>\<open>-0.0\<close>.
\<close>

fun fadd :: "pyfloat \<Rightarrow> pyfloat \<Rightarrow> pyfloat" where
  "fadd NaN y = NaN"
| "fadd x NaN = NaN"
| "fadd PInf NInf = NaN"
| "fadd NInf PInf = NaN"
| "fadd PInf y = PInf"
| "fadd x PInf = PInf"
| "fadd NInf y = NInf"
| "fadd x NInf = NInf"
| "fadd NZero NZero = NZero"
| "fadd x y = Fin (val x + val y)"

text \<open>\<^verbatim>\<open>x - y\<close> is \<^verbatim>\<open>x + (-y)\<close> in IEEE-754.\<close>

definition fsub :: "pyfloat \<Rightarrow> pyfloat \<Rightarrow> pyfloat" where
  "fsub x y = fadd x (fneg y)"

text \<open>
  \<^verbatim>\<open>x * y\<close>: an infinity times a zero is NaN; the sign of the result is the exclusive or
  of the signs.
\<close>

definition fmul :: "pyfloat \<Rightarrow> pyfloat \<Rightarrow> pyfloat" where
  "fmul x y =
     (if x = NaN \<or> y = NaN then NaN
      else if is_inf x \<or> is_inf y then
        (if is_zero x \<or> is_zero y then NaN else inf_of (signbit x \<noteq> signbit y))
      else fin_of (signbit x \<noteq> signbit y) (val x * val y))"

text \<open>
  \<^verbatim>\<open>x / y\<close>: CPython raises \<^verbatim>\<open>ZeroDivisionError\<close> when \<^verbatim>\<open>y == 0.0\<close>, before looking at
  \<open>x\<close>.
\<close>

definition fdiv :: "pyfloat \<Rightarrow> pyfloat \<Rightarrow> pyerror + pyfloat" where
  "fdiv x y =
     (if is_zero y then Inl ZeroDivisionError
      else if x = NaN \<or> y = NaN then Inr NaN
      else if is_inf x then
        (if is_inf y then Inr NaN else Inr (inf_of (signbit x \<noteq> signbit y)))
      else if is_inf y then Inr (zero_of (signbit x \<noteq> signbit y))
      else Inr (fin_of (signbit x \<noteq> signbit y) (val x / val y)))"

text \<open>\<^verbatim>\<open>x ** 2\<close>: the square of either zero is \<^verbatim>\<open>0.0\<close>, of either infinity \<^verbatim>\<open>inf\<close>.\<close>

fun fpow2 :: "pyfloat \<Rightarrow> pyfloat" where
  "fpow2 (Fin r) = Fin (r\<^sup>2)"
| "fpow2 NZero = Fin 0"
| "fpow2 PInf = PInf"
| "fpow2 NInf = PInf"
| "fpow2 NaN = NaN"

subsection \<open>The math module\<close>

text \<open>
  \<^verbatim>\<open>math.sqrt\<close> raises \<^verbatim>\<open>ValueError\<close> on a negative argument and on \<^verbatim>\<open>-inf\<close>, and
  passes \<^verbatim>\<open>-0.0\<close>, \<^verbatim>\<open>inf\<close> and NaN through.
\<close>

fun fsqrt :: "pyfloat \<Rightarrow> pyerror + pyfloat" where
  "fsqrt (Fin r) = (if r < 0 then Inl ValueError else Inr (Fin (sqrt r)))"
| "fsqrt NZero = Inr NZero"
| "fsqrt PInf = Inr PInf"
| "fsqrt NInf = Inl ValueError"
| "fsqrt NaN = Inr NaN"

text \<open>\<^verbatim>\<open>math.log\<close> raises \<^verbatim>\<open>ValueError\<close> on zero, on a negative argument and on \<^verbatim>\<open>-inf\<close>.\<close>

fun flog :: "pyfloat \<Rightarrow> pyerror + pyfloat" where
  "flog (Fin r) = (if 0 < r then Inr (Fin (ln r)) else Inl ValueError)"
| "flog NZero = Inl ValueError"
| "flog PInf = Inr PInf"
| "flog NInf = Inl ValueError"
| "flog NaN = Inr NaN"




text \<open>
  \<^verbatim>\<open>math.atan2(y, x)\<close> never raises. CPython settles the special cases itself: NaN first,
  then an infinite \<open>y\<close>, then an infinite \<open>x\<close> or a zero \<open>y\<close>, where the sign bit of \<open>x\<close>
  chooses between a zero and \<open>\<pi>\<close> and the sign bit of \<open>y\<close> gives the sign of the result.
  The remaining case is the angle of the point \<open>(x, y)\<close> with \<open>y \<noteq> 0\<close>.
\<close>

definition copysign :: "real \<Rightarrow> pyfloat \<Rightarrow> pyfloat" where
  "copysign r y = (if signbit y then fin_of True (- r) else fin_of False r)"

definition fatan2 :: "pyfloat \<Rightarrow> pyfloat \<Rightarrow> pyfloat" where
  "fatan2 y x =
     (if x = NaN \<or> y = NaN then NaN
      else if is_inf y then
        (if is_inf x then
           (if \<not> signbit x then copysign (0.25 * pi) y else copysign (0.75 * pi) y)
         else copysign (0.5 * pi) y)
      else if is_inf x \<or> is_zero y then
        (if \<not> signbit x then copysign 0 y else copysign pi y)
      else if is_zero x then copysign (0.5 * pi) y
      else if 0 < val x then Fin (arctan (val y / val x))
      else if 0 < val y then Fin (arctan (val y / val x) + pi)
      else Fin (arctan (val y / val x) - pi))"

section \<open>The FourVector classes\<close>

text \<open>
  Exceptions are values: a computation returns \<open>Inl e\<close> where the source raises \<open>e\<close>,
  and \<open>bindE\<close> passes the first exception on, as the interpreter unwinds the call.
\<close>

definition bindE :: "pyerror + 'a \<Rightarrow> ('a \<Rightarrow> pyerror + 'b) \<Rightarrow> pyerror + 'b" where
  "bindE m f = (case m of Inl e \<Rightarrow> Inl e | Inr x \<Rightarrow> f x)"

text \<open>The four concrete subclasses of the abstract class \<^verbatim>\<open>FourVector\<close>.\<close>

datatype variant = PxPyPzE | PxPyPzM | PtEtaPhiE | PtEtaPhiM

text \<open>
  An instance: its class and the eight private attributes \<^verbatim>\<open>_px\<close>, ..., \<^verbatim>\<open>_M\<close>. The
  read-only properties \<^verbatim>\<open>px\<close>, ..., \<^verbatim>\<open>M\<close> return these attributes as they are, so a
  field also stands for its accessor.
\<close>

record fourvector =
  cls :: variant
  attr_px :: pyfloat
  attr_py :: pyfloat
  attr_pz :: pyfloat
  attr_E :: pyfloat
  attr_pt :: pyfloat
  attr_eta :: pyfloat
  attr_phi :: pyfloat
  attr_M :: pyfloat

text \<open>
  \<^verbatim>\<open>_calculate_derived_quantities\<close>, on the four core attributes just stored; the result
  is the instance with all eight attributes set, or the exception of a \<^verbatim>\<open>math\<close> call or
  of the division.
\<close>

definition calculate_derived_quantities ::
  "variant \<Rightarrow> pyfloat \<Rightarrow> pyfloat \<Rightarrow> pyfloat \<Rightarrow> pyfloat \<Rightarrow> pyerror + fourvector" where
  "calculate_derived_quantities c px py pz E =
     bindE (fsqrt (fadd (fpow2 px) (fpow2 py))) (\<lambda>pt.
     let phi = fatan2 py px in
     bindE (fsqrt (fadd (fadd (fpow2 px) (fpow2 py)) (fpow2 pz))) (\<lambda>p.
     bindE (if fne p (fabs pz) then
              bindE (fdiv (fadd p pz) (fsub p pz)) (\<lambda>q.
              bindE (flog q) (\<lambda>l. Inr (fmul (Fin 0.5) l)))
            else Inr (if fge pz (Fin 0) then PInf else fneg PInf)) (\<lambda>eta.
     bindE (fsqrt (pymax (fsub (fpow2 E) (fpow2 p)) (Fin 0))) (\<lambda>M.
     Inr \<lparr>cls = c, attr_px = px, attr_py = py, attr_pz = pz, attr_E = E,
          attr_pt = pt, attr_eta = eta, attr_phi = phi, attr_M = M\<rparr>))))"

text \<open>\<^verbatim>\<open>FourVector.__init__\<close>, called by every subclass through \<^verbatim>\<open>super().__init__\<close>.\<close>

definition FourVector_init ::
  "variant \<Rightarrow> pyfloat \<Rightarrow> pyfloat \<Rightarrow> pyfloat \<Rightarrow> pyfloat \<Rightarrow> pyerror + fourvector" where
  "FourVector_init c px py pz E = calculate_derived_quantities c px py pz E"

definition PxPyPzEFourVector ::
  "pyfloat \<Rightarrow> pyfloat \<Rightarrow> pyfloat \<Rightarrow> pyfloat \<Rightarrow> pyerror + fourvector" where
  "PxPyPzEFourVector px py pz E = FourVector_init PxPyPzE px py pz E"




subsection \<open>Addition and subtraction\<close>

text \<open>
  The right operand of \<^verbatim>\<open>+\<close> and \<^verbatim>\<open>-\<close> is any Python object: a four-vector, or a value
  of a builtin type.
\<close>

datatype pyobject =
  FourVectorObj fourvector | FloatObj pyfloat | IntObj int | StrObj string | NoneObj


text \<open>What a special method hands back: \<^verbatim>\<open>NotImplemented\<close>, or the outcome of its body.\<close>

datatype 'a dunder = NotImplemented | Returned 'a

text \<open>
  \<^verbatim>\<open>__add__\<close> and \<^verbatim>\<open>__sub__\<close>: an operand that fails the \<^verbatim>\<open>isinstance\<close> test gets
  \<^verbatim>\<open>NotImplemented\<close>; the result is built by \<^verbatim>\<open>PxPyPzEFourVector\<close> whatever the
  classes of the operands.
\<close>

fun dunder_add :: "fourvector \<Rightarrow> pyobject \<Rightarrow> (pyerror + fourvector) dunder" where
  "dunder_add self (FourVectorObj other) =
     Returned (PxPyPzEFourVector
       (fadd (attr_px self) (attr_px other)) (fadd (attr_py self) (attr_py other))
       (fadd (attr_pz self) (attr_pz other)) (fadd (attr_E self) (attr_E other)))"
| "dunder_add self other = NotImplemented"

fun dunder_sub :: "fourvector \<Rightarrow> pyobject \<Rightarrow> (pyerror + fourvector) dunder" where
  "dunder_sub self (FourVectorObj other) =
     Returned (PxPyPzEFourVector
       (fsub (attr_px self) (attr_px other)) (fsub (attr_py self) (attr_py other))
       (fsub (attr_pz self) (attr_pz other)) (fsub (attr_E self) (attr_E other)))"
| "dunder_sub self other = NotImplemented"

text \<open>
  The reflected method of the right operand, tried after \<^verbatim>\<open>NotImplemented\<close>: a float and
  an int have \<^verbatim>\<open>__radd__\<close> and \<^verbatim>\<open>__rsub__\<close>, which hand back \<^verbatim>\<open>NotImplemented\<close> for a
  left operand that is no number; a string and \<^verbatim>\<open>None\<close> have none. A four-vector on the
  right never gets here.
\<close>

fun reflected :: "pyobject \<Rightarrow> fourvector \<Rightarrow> (pyerror + fourvector) dunder" where
  "reflected x a = NotImplemented"

text \<open>
  The operators \<^verbatim>\<open>a + x\<close> and \<^verbatim>\<open>a - x\<close>: the interpreter calls the method of the left
  operand, then the reflected method of the right one, and raises \<^verbatim>\<open>TypeError\<close>
  (unsupported operand types) when both hand back \<^verbatim>\<open>NotImplemented\<close>.
\<close>

definition binary_op ::
  "(fourvector \<Rightarrow> pyobject \<Rightarrow> (pyerror + fourvector) dunder) \<Rightarrow>
   fourvector \<Rightarrow> pyobject \<Rightarrow> pyerror + fourvector" where
  "binary_op method a x =
     (case method a x of
        Returned r \<Rightarrow> r
      | NotImplemented \<Rightarrow>
          (case reflected x a of Returned r \<Rightarrow> r | NotImplemented \<Rightarrow> Inl TypeError))"

definition add :: "fourvector \<Rightarrow> pyobject \<Rightarrow> pyerror + fourvector" where
  "add a x = binary_op dunder_add a x"

definition subtract :: "fourvector \<Rightarrow> pyobject \<Rightarrow> pyerror + fourvector" where
  "subtract a x = binary_op dunder_sub a x"

subsection \<open>The mutator\<close>

text \<open>
  \<^verbatim>\<open>set_vector\<close> takes the instance and four arguments of any kind; it returns the
  outcome of the call and the instance as the call leaves it. Each subclass has its own
  method, with the same body.
\<close>

definition PxPyPzE_set_vector ::
  "fourvector \<Rightarrow> pyobject \<Rightarrow> pyobject \<Rightarrow> pyobject \<Rightarrow> pyobject \<Rightarrow> (pyerror + unit) \<times> fourvector" where
  "PxPyPzE_set_vector self px py pz E = (Inl AttributeError, self)"

definition PxPyPzM_set_vector ::
  "fourvector \<Rightarrow> pyobject \<Rightarrow> pyobject \<Rightarrow> pyobject \<Rightarrow> pyobject \<Rightarrow> (pyerror + unit) \<times> fourvector" where
  "PxPyPzM_set_vector self px py pz M = (Inl AttributeError, self)"

definition PtEtaPhiE_set_vector ::
  "fourvector \<Rightarrow> pyobject \<Rightarrow> pyobject \<Rightarrow> pyobject \<Rightarrow> pyobject \<Rightarrow> (pyerror + unit) \<times> fourvector" where
  "PtEtaPhiE_set_vector self pt eta phi E = (Inl AttributeError, self)"

definition PtEtaPhiM_set_vector ::
  "fourvector \<Rightarrow> pyobject \<Rightarrow> pyobject \<Rightarrow> pyobject \<Rightarrow> pyobject \<Rightarrow> (pyerror + unit) \<times> fourvector" where
  "PtEtaPhiM_set_vector self pt eta phi M = (Inl AttributeError, self)"

text \<open>The call \<^verbatim>\<open>v.set_vector(a, b, c, d)\<close> runs the method of the class of \<open>v\<close>.\<close>

definition set_vector ::
  "fourvector \<Rightarrow> pyobject \<Rightarrow> pyobject \<Rightarrow> pyobject \<Rightarrow> pyobject \<Rightarrow> (pyerror + unit) \<times> fourvector" where
  "set_vector self a b c d =
     (case cls self of
        PxPyPzE \<Rightarrow> PxPyPzE_set_vector self a b c d
      | PxPyPzM \<Rightarrow> PxPyPzM_set_vector self a b c d
      | PtEtaPhiE \<Rightarrow> PtEtaPhiE_set_vector self a b c d
      | PtEtaPhiM \<Rightarrow> PtEtaPhiM_set_vector self a b c d)"

section \<open>Properties\<close>

subsection \<open>Facts about the float operations\<close>

lemma fadd_commute: "fadd x y = fadd y x"
  by (cases x; cases y) simp_all

lemma fsub_self: "is_finite x \<Longrightarrow> fsub x x = Fin 0"
  by (cases x) (simp_all add: fsub_def)

lemma sumsq2_nonneg: "\<not> a\<^sup>2 + b\<^sup>2 < (0::real)"
  by (simp add: not_less)

lemma sumsq3_nonneg: "\<not> a\<^sup>2 + b\<^sup>2 + c\<^sup>2 < (0::real)"
  by (simp add: not_less)


lemma pt_value:
  "fsqrt (fadd (fpow2 px) (fpow2 py)) =
     Inr (if px = NaN \<or> py = NaN then NaN
          else if is_inf px \<or> is_inf py then PInf
          else Fin (sqrt ((val px)\<^sup>2 + (val py)\<^sup>2)))"
  by (cases px; cases py) (simp_all add: sumsq2_nonneg)

lemma sumsq3_value:
  "fadd (fadd (fpow2 px) (fpow2 py)) (fpow2 pz) =
     (if px = NaN \<or> py = NaN \<or> pz = NaN then NaN
          else if is_inf px \<or> is_inf py \<or> is_inf pz then PInf
          else Fin ((val px)\<^sup>2 + (val py)\<^sup>2 + (val pz)\<^sup>2))"
  by (cases px; cases py; cases pz) simp_all

lemma p_value:
  "fsqrt (fadd (fadd (fpow2 px) (fpow2 py)) (fpow2 pz)) =
     Inr (if px = NaN \<or> py = NaN \<or> pz = NaN then NaN
          else if is_inf px \<or> is_inf py \<or> is_inf pz then PInf
          else Fin (sqrt ((val px)\<^sup>2 + (val py)\<^sup>2 + (val pz)\<^sup>2)))"
  by (simp add: sumsq3_value sumsq3_nonneg)


subsection \<open>The derived quantities in closed form\<close>

text \<open>
  The magnitude \<open>p\<close> equals \<open>\<bar>pz\<bar>\<close> exactly when \<open>px\<close> and \<open>py\<close> are zero, and is larger
  otherwise: on finite components the logarithm is taken of a positive quotient.
\<close>

lemma sqrt_sumsq_eq_abs_iff:
  "sqrt (x\<^sup>2 + y\<^sup>2 + z\<^sup>2) = \<bar>z\<bar> \<longleftrightarrow> x = 0 \<and> y = 0"
proof
  assume "sqrt (x\<^sup>2 + y\<^sup>2 + z\<^sup>2) = \<bar>z\<bar>"
  then have "(sqrt (x\<^sup>2 + y\<^sup>2 + z\<^sup>2))\<^sup>2 = \<bar>z\<bar>\<^sup>2" by simp
  then have "x\<^sup>2 + y\<^sup>2 + z\<^sup>2 = z\<^sup>2" by simp
  then have "x\<^sup>2 + y\<^sup>2 = 0" by simp
  then show "x = 0 \<and> y = 0" by simp
next
  assume "x = 0 \<and> y = 0"
  then show "sqrt (x\<^sup>2 + y\<^sup>2 + z\<^sup>2) = \<bar>z\<bar>" by simp
qed

lemma sqrt_sumsq_ge_abs: "\<bar>z\<bar> \<le> sqrt (x\<^sup>2 + y\<^sup>2 + z\<^sup>2)"
proof -
  have "sqrt (z\<^sup>2) \<le> sqrt (x\<^sup>2 + y\<^sup>2 + z\<^sup>2)"
    by (rule real_sqrt_le_mono) simp
  then show ?thesis by simp
qed

lemma sqrt_sumsq_gt:
  assumes "\<not> (x = 0 \<and> y = 0)"
  shows "0 < sqrt (x\<^sup>2 + y\<^sup>2 + z\<^sup>2) + z" and "0 < sqrt (x\<^sup>2 + y\<^sup>2 + z\<^sup>2) - z"
proof -
  have "\<bar>z\<bar> \<noteq> sqrt (x\<^sup>2 + y\<^sup>2 + z\<^sup>2)"
    using assms sqrt_sumsq_eq_abs_iff [of x y z] by auto
  then have "\<bar>z\<bar> < sqrt (x\<^sup>2 + y\<^sup>2 + z\<^sup>2)"
    using sqrt_sumsq_ge_abs [of z x y] by linarith
  then show "0 < sqrt (x\<^sup>2 + y\<^sup>2 + z\<^sup>2) + z" and "0 < sqrt (x\<^sup>2 + y\<^sup>2 + z\<^sup>2) - z"
    by linarith+
qed

lemma fmul_half: "fmul (Fin (1 / 2)) (Fin l) = Fin (l / 2)"
  by (simp add: fmul_def fin_of_def zero_of_def)

lemma fdiv_pos: "0 < a \<Longrightarrow> 0 < b \<Longrightarrow> fdiv (Fin a) (Fin b) = Inr (Fin (a / b))"
  by (simp add: fdiv_def fin_of_def)

lemma fadd_Fin: "is_finite y \<Longrightarrow> fadd (Fin r) y = Fin (r + val y)"
  by (cases y) simp_all

lemma fsub_Fin: "is_finite y \<Longrightarrow> fsub (Fin r) y = Fin (r - val y)"
  by (cases y) (simp_all add: fsub_def)

lemma fne_Fin_abs: "is_finite z \<Longrightarrow> fne (Fin r) (fabs z) = (r \<noteq> \<bar>val z\<bar>)"
  by (cases z) (auto simp add: fne_def feq_def)

lemma fge_zero_finite: "is_finite z \<Longrightarrow> fge z (Fin 0) = (0 \<le> val z)"
  by (cases z) (auto simp add: fge_def feq_def)

lemma is_zero_val: "is_finite x \<Longrightarrow> is_zero x = (val x = 0)"
  by (cases x) simp_all

text \<open>The pseudorapidity branch, by the kind of the momentum components.\<close>

lemma eta_finite:
  assumes "is_finite px" "is_finite py" "is_finite pz"
    and r: "r = sqrt ((val px)\<^sup>2 + (val py)\<^sup>2 + (val pz)\<^sup>2)"
  shows "(if fne (Fin r) (fabs pz) then
              bindE (fdiv (fadd (Fin r) pz) (fsub (Fin r) pz)) (\<lambda>q.
              bindE (flog q) (\<lambda>l. Inr (fmul (Fin 0.5) l)))
            else Inr (if fge pz (Fin 0) then PInf else fneg PInf)) =
         Inr (if is_zero px \<and> is_zero py then (if val pz < 0 then NInf else PInf)
              else Fin (0.5 * ln ((r + val pz) / (r - val pz))))"
proof (cases "val px = 0 \<and> val py = 0")
  case True
  then show ?thesis using assms
    by (simp add: fne_Fin_abs fge_zero_finite is_zero_val not_le)
next
  case False
  have pos: "0 < r + val pz" "0 < r - val pz"
    using sqrt_sumsq_gt [OF False, of "val pz"] by (simp_all add: r)
  have ne: "r \<noteq> \<bar>val pz\<bar>"
    using sqrt_sumsq_eq_abs_iff [of "val px" "val py" "val pz"] False by (simp add: r)
  have q: "0 < (r + val pz) / (r - val pz)" using pos by simp
  have "(if fne (Fin r) (fabs pz) then
              bindE (fdiv (fadd (Fin r) pz) (fsub (Fin r) pz)) (\<lambda>q.
              bindE (flog q) (\<lambda>l. Inr (fmul (Fin 0.5) l)))
            else Inr (if fge pz (Fin 0) then PInf else fneg PInf)) =
        Inr (Fin (0.5 * ln ((r + val pz) / (r - val pz))))"
    using assms(3) pos ne q
    by (simp add: fne_Fin_abs fadd_Fin fsub_Fin fdiv_pos bindE_def fmul_half)
  then show ?thesis using False assms(1,2)
    by (simp add: is_zero_val)
qed


lemma eta_nan:
  "(if fne NaN (fabs pz) then
              bindE (fdiv (fadd NaN pz) (fsub NaN pz)) (\<lambda>q.
              bindE (flog q) (\<lambda>l. Inr (fmul (Fin 0.5) l)))
            else Inr (if fge pz (Fin 0) then PInf else fneg PInf)) = Inr NaN"
  by (simp add: fne_def feq_def fsub_def fdiv_def bindE_def fmul_def)

lemma eta_pz_inf:
  "is_inf pz \<Longrightarrow>
   (if fne PInf (fabs pz) then
              bindE (fdiv (fadd PInf pz) (fsub PInf pz)) (\<lambda>q.
              bindE (flog q) (\<lambda>l. Inr (fmul (Fin 0.5) l)))
            else Inr (if fge pz (Fin 0) then PInf else fneg PInf)) = Inr pz"
  by (cases pz) (simp_all add: fne_def feq_def fge_def)

lemma eta_p_inf:
  "is_finite pz \<Longrightarrow>
   (if fne PInf (fabs pz) then
              bindE (fdiv (fadd PInf pz) (fsub PInf pz)) (\<lambda>q.
              bindE (flog q) (\<lambda>l. Inr (fmul (Fin 0.5) l)))
            else Inr (if fge pz (Fin 0) then PInf else fneg PInf)) = Inr NaN"
  by (cases pz) (simp_all add: fne_def feq_def fsub_def fdiv_def bindE_def fmul_def)

lemma M_value:
  "fsqrt (pymax (fsub (fpow2 E) (fpow2 p)) (Fin 0)) =
     Inr (if E = NaN \<or> p = NaN then NaN
          else if is_inf E then (if is_inf p then NaN else PInf)
          else if is_inf p then Fin 0
          else Fin (sqrt (max ((val E)\<^sup>2 - (val p)\<^sup>2) 0)))"
  by (cases E; cases p) (simp_all add: fsub_def pymax_def fgt_def max_def not_less)

text \<open>
  \<^verbatim>\<open>_calculate_derived_quantities\<close> raises nothing, and its result is known on every
  input.
\<close>

lemma calculate_derived_quantities_value:
  "calculate_derived_quantities c px py pz E =
     Inr \<lparr>cls = c, attr_px = px, attr_py = py, attr_pz = pz, attr_E = E,
       attr_pt =
         (if px = NaN \<or> py = NaN then NaN
          else if is_inf px \<or> is_inf py then PInf
          else Fin (sqrt ((val px)\<^sup>2 + (val py)\<^sup>2))),
       attr_eta =
         (if px = NaN \<or> py = NaN \<or> pz = NaN then NaN
          else if is_inf pz then pz
          else if is_inf px \<or> is_inf py then NaN
          else if is_zero px \<and> is_zero py then (if val pz < 0 then NInf else PInf)
          else Fin (0.5 * ln ((sqrt ((val px)\<^sup>2 + (val py)\<^sup>2 + (val pz)\<^sup>2) + val pz) /
                              (sqrt ((val px)\<^sup>2 + (val py)\<^sup>2 + (val pz)\<^sup>2) - val pz)))),
       attr_phi = fatan2 py px,
       attr_M =
         (if px = NaN \<or> py = NaN \<or> pz = NaN \<or> E = NaN then NaN
          else if is_inf E then (if is_inf px \<or> is_inf py \<or> is_inf pz then NaN else PInf)
          else if is_inf px \<or> is_inf py \<or> is_inf pz then Fin 0
          else Fin (sqrt (max ((val E)\<^sup>2 - ((val px)\<^sup>2 + (val py)\<^sup>2 + (val pz)\<^sup>2)) 0)))\<rparr>"
proof -
  consider (nan) "px = NaN \<or> py = NaN \<or> pz = NaN"
    | (zinf) "px \<noteq> NaN" "py \<noteq> NaN" "pz \<noteq> NaN" "is_inf pz"
    | (pinf) "px \<noteq> NaN" "py \<noteq> NaN" "is_finite pz" "is_inf px \<or> is_inf py"
    | (fin) "is_finite px" "is_finite py" "is_finite pz"
    by (cases px; cases py; cases pz) simp_all
  then show ?thesis
  proof cases
    case nan
    then show ?thesis
      by (simp add: calculate_derived_quantities_def pt_value p_value bindE_def [of "Inr x" for x]
          eta_nan M_value) blast
  next
    case zinf
    then show ?thesis
      by (simp add: calculate_derived_quantities_def pt_value p_value bindE_def [of "Inr x" for x]
          eta_pz_inf M_value)
  next
    case pinf
    then have "pz \<noteq> NaN" "\<not> is_inf pz" by (cases pz; simp)+
    then show ?thesis using pinf
      by (simp add: calculate_derived_quantities_def pt_value p_value bindE_def [of "Inr x" for x]
          eta_p_inf M_value)
  next
    case fin
    then have "px \<noteq> NaN" "py \<noteq> NaN" "pz \<noteq> NaN" "\<not> is_inf px" "\<not> is_inf py" "\<not> is_inf pz"
      by (cases px; cases py; cases pz; simp)+
    then show ?thesis using fin
      by (simp add: calculate_derived_quantities_def pt_value p_value bindE_def [of "Inr x" for x]
          eta_finite [OF fin refl] M_value)
  qed
qed

lemma PxPyPzEFourVector_value:
  "\<exists>v. PxPyPzEFourVector px py pz E = Inr v \<and> cls v = PxPyPzE \<and> attr_px v = px
     \<and> attr_py v = py \<and> attr_pz v = pz \<and> attr_E v = E"
  by (simp add: PxPyPzEFourVector_def FourVector_init_def calculate_derived_quantities_value)

subsection \<open>Finite inputs of the constructors\<close>






subsection \<open>What every constructed instance satisfies\<close>






lemma init_phi:
  assumes "FourVector_init c px py pz E = Inr v"
  shows "attr_phi v = fatan2 py px"
  using assms by (auto simp add: FourVector_init_def calculate_derived_quantities_value)

lemma init_total: "\<exists>v. FourVector_init c px py pz E = Inr v"
  by (simp add: FourVector_init_def calculate_derived_quantities_value)






lemma fatan2_finite:
  assumes "is_finite px" "is_finite py" "\<not> (is_zero px \<and> is_zero py)"
  shows "is_finite (fatan2 py px) \<and> - pi \<le> val (fatan2 py px) \<and> val (fatan2 py px) \<le> pi
    \<and> (val (fatan2 py px) = - pi \<longleftrightarrow> py = NZero \<and> val px < 0)
    \<and> (\<not> signbit py \<longrightarrow> 0 \<le> val (fatan2 py px))"
proof -
  have fin: "px \<noteq> NaN" "py \<noteq> NaN" "\<not> is_inf px" "\<not> is_inf py"
    using assms(1,2) by (cases px; cases py; simp)+
  define x where "x = val px"
  define y where "y = val py"
  have zx: "is_zero px \<longleftrightarrow> x = 0" and zy: "is_zero py \<longleftrightarrow> y = 0"
    using assms(1,2) by (simp_all add: is_zero_val x_def y_def)
  have sx: "signbit px \<longleftrightarrow> x < 0 \<or> px = NZero" and sy: "signbit py \<longleftrightarrow> y < 0 \<or> py = NZero"
    using assms(1,2) by (cases px; cases py; simp add: x_def y_def)+
  have nzy: "py = NZero \<Longrightarrow> y = 0" and nzx: "px = NZero \<Longrightarrow> x = 0"
    by (simp_all add: x_def y_def)
  have vx: "val px = x" and vy: "val py = y"
    by (simp_all add: x_def y_def)
  note lb = arctan_lbound [of "y / x"] and ub = arctan_ubound [of "y / x"]
  consider (y0) "y = 0" | (x0) "y \<noteq> 0" "x = 0" | (xpos) "y \<noteq> 0" "0 < x"
    | (q2) "0 < y" "x < 0" | (q3) "y < 0" "x < 0"
    by linarith
  then show ?thesis
  proof cases
    case y0
    then have "x \<noteq> 0" using assms(3) zx zy by simp
    then show ?thesis using y0 fin zx zy sx sy nzy nzx pi_gt_zero
      unfolding vx vy fatan2_def copysign_def fin_of_def zero_of_def
      by (cases "py = NZero") auto
  next
    case x0
    have "- (pi / 2) \<le> pi" "- pi \<le> pi / 2" "pi / 2 \<le> pi" "- pi \<le> - (pi / 2)"
      using pi_gt_zero by linarith+
    then show ?thesis using x0 fin zx zy sy nzy
      unfolding vx vy fatan2_def copysign_def fin_of_def zero_of_def
      by auto (use pi_gt_zero in linarith)+
  next
    case xpos
    then show ?thesis using xpos fin zx zy sy lb ub nzy
      unfolding vx vy fatan2_def
      by auto
  next
    case q2
    then have "y / x < 0" by (simp add: divide_pos_neg)
    then have "arctan (y / x) < 0" by simp
    then show ?thesis using q2 fin zx zy sy lb ub nzy
      unfolding vx vy fatan2_def
      by auto
  next
    case q3
    then have "0 < y / x" by (simp add: divide_neg_neg)
    then have "0 < arctan (y / x)" by simp
    then show ?thesis using q3 fin zx zy sy lb ub nzy
      unfolding vx vy fatan2_def
      by auto
  qed
qed

lemma fatan2_2_1: "fatan2 (Fin 2) (Fin 1) = Fin (arctan 2)"
  by (simp add: fatan2_def)

section \<open>Canonical form\<close>




section \<open>Derived quantities\<close>

text \<open>
  C2. \<^verbatim>\<open>PxPyPzEFourVector(1, 2, 3, 4)\<close> has \<open>pt = sqrt 5\<close>, \<open>phi = atan2(2, 1)\<close>, which
  is \<open>arctan 2\<close>, \<open>eta = 0.5 * ln ((sqrt 14 + 3) / (sqrt 14 - 3))\<close> and
  \<open>M = sqrt (max (16 - 14) 0) = sqrt 2\<close>.
\<close>

theorem PxPyPzE_1_2_3_4:
  "PxPyPzEFourVector (Fin 1) (Fin 2) (Fin 3) (Fin 4) =
     Inr \<lparr>cls = PxPyPzE, attr_px = Fin 1, attr_py = Fin 2, attr_pz = Fin 3, attr_E = Fin 4,
          attr_pt = Fin (sqrt 5),
          attr_eta = Fin (0.5 * ln ((sqrt 14 + 3) / (sqrt 14 - 3))),
          attr_phi = fatan2 (Fin 2) (Fin 1),
          attr_M = Fin (sqrt (max (16 - 14) 0))\<rparr>
   \<and> fatan2 (Fin 2) (Fin 1) = Fin (arctan 2)
   \<and> sqrt (max (16 - 14) 0) = sqrt 2"
  by (simp add: PxPyPzEFourVector_def FourVector_init_def calculate_derived_quantities_value
      fatan2_2_1)






text \<open>
  C5, as amended. For finite \<open>px\<close> and \<open>py\<close> that are not both zero, \<open>phi\<close> is finite and lies
  in the closed interval from \<open>-\<pi>\<close> to \<open>\<pi>\<close>; it is not negative when the sign bit of \<open>py\<close>
  is clear, and it is \<open>-\<pi>\<close> when \<open>py\<close> is \<^verbatim>\<open>-0.0\<close> and \<open>px\<close> is negative.
\<close>

theorem phi_range:
  assumes "is_finite px" "is_finite py" "\<not> (is_zero px \<and> is_zero py)"
  shows "\<exists>v. FourVector_init c px py pz E = Inr v
    \<and> is_finite (attr_phi v)
    \<and> - pi \<le> val (attr_phi v) \<and> val (attr_phi v) \<le> pi
    \<and> (\<not> signbit py \<longrightarrow> 0 \<le> val (attr_phi v))
    \<and> (py = NZero \<and> val px < 0 \<longrightarrow> attr_phi v = Fin (- pi))"
proof -
  obtain v where v: "FourVector_init c px py pz E = Inr v"
    using init_total by blast
  note phi = fatan2_finite [OF assms]
  have "attr_phi v = Fin (- pi)" if "py = NZero \<and> val px < 0"
  proof -
    have "val (fatan2 py px) = - pi" using phi that by blast
    moreover have "is_finite (fatan2 py px)" using phi by blast
    ultimately show ?thesis
      using pi_gt_zero by (cases "fatan2 py px") (simp_all add: init_phi [OF v])
  qed
  then show ?thesis
    using v phi by (simp add: init_phi [OF v])
qed

theorem phi_range_witness:
  "is_finite (Fin (- 1)) \<and> is_finite NZero \<and> \<not> (is_zero (Fin (- 1)) \<and> is_zero NZero)
   \<and> val (Fin (- 1)) < 0
   \<and> map_sum id attr_phi (FourVector_init PxPyPzE (Fin (- 1)) NZero (Fin 0) (Fin 1))
       = Inr (Fin (- pi))
   \<and> is_finite (Fin 1) \<and> \<not> (is_zero (Fin 1) \<and> is_zero (Fin 1)) \<and> \<not> signbit (Fin 1)
   \<and> map_sum id attr_phi (FourVector_init PxPyPzE (Fin 1) (Fin 1) (Fin 0) (Fin 2))
       = Inr (Fin (pi / 4))"
proof -
  have quarter: "map_sum id attr_phi (FourVector_init PxPyPzE (Fin 1) (Fin 1) (Fin 0) (Fin 2))
       = Inr (Fin (pi / 4))"
    by (simp add: FourVector_init_def calculate_derived_quantities_value fatan2_def arctan_one)
  show ?thesis
    using quarter phi_range [of "Fin (- 1)" NZero PxPyPzE "Fin 0" "Fin 1"]
    by auto
qed

text \<open>
  C5 as stated fails at \<open>px = -1\<close>, \<open>py = -0.0\<close>: \<^verbatim>\<open>math.atan2(-0.0, -1.0)\<close> is \<open>-\<pi>\<close>, which is
  not greater than \<open>-\<pi>\<close>.
\<close>

theorem phi_range_counterexample:
  "is_finite (Fin (- 1)) \<and> is_finite NZero \<and> \<not> (is_zero (Fin (- 1)) \<and> is_zero NZero)
   \<and> PxPyPzEFourVector (Fin (- 1)) NZero (Fin 0) (Fin 1) =
       Inr \<lparr>cls = PxPyPzE, attr_px = Fin (- 1), attr_py = NZero, attr_pz = Fin 0, attr_E = Fin 1,
            attr_pt = Fin 1, attr_eta = Fin 0, attr_phi = Fin (- pi), attr_M = Fin 0\<rparr>
   \<and> \<not> fgt (Fin (- pi)) (Fin (- pi))"
  by (simp add: PxPyPzEFourVector_def FourVector_init_def calculate_derived_quantities_value
      fatan2_def copysign_def fin_of_def fgt_def)




section \<open>Addition\<close>

text \<open>
  C6. Addition is commutative: for all four-vectors \<open>a\<close> and \<open>b\<close>, \<open>a + b\<close> and \<open>b + a\<close>
  are the same instance, whose four core attributes are the componentwise sums.
\<close>

theorem add_commutative:
  "\<exists>v. add a (FourVectorObj b) = Inr v \<and> add b (FourVectorObj a) = Inr v
     \<and> attr_px v = fadd (attr_px a) (attr_px b) \<and> attr_py v = fadd (attr_py a) (attr_py b)
     \<and> attr_pz v = fadd (attr_pz a) (attr_pz b) \<and> attr_E v = fadd (attr_E a) (attr_E b)"
proof -
  obtain v where v: "PxPyPzEFourVector (fadd (attr_px a) (attr_px b))
      (fadd (attr_py a) (attr_py b)) (fadd (attr_pz a) (attr_pz b))
      (fadd (attr_E a) (attr_E b)) = Inr v"
    and attrs: "attr_px v = fadd (attr_px a) (attr_px b)" "attr_py v = fadd (attr_py a) (attr_py b)"
      "attr_pz v = fadd (attr_pz a) (attr_pz b)" "attr_E v = fadd (attr_E a) (attr_E b)"
    using PxPyPzEFourVector_value by blast
  have "add a (FourVectorObj b) = Inr v"
    using v by (simp add: add_def binary_op_def)
  moreover have "add b (FourVectorObj a) = Inr v"
    using v by (simp add: add_def binary_op_def fadd_commute [of "attr_px b"]
        fadd_commute [of "attr_py b"] fadd_commute [of "attr_pz b"] fadd_commute [of "attr_E b"])
  ultimately show ?thesis using attrs by blast
qed

text \<open>
  C7, as amended. For a four-vector \<open>a\<close> whose four core attributes are finite, \<open>a - a\<close> is
  the instance with \<open>px = py = pz = E = 0.0\<close> exactly (and \<open>pt = 0\<close>, \<open>phi = 0\<close>, \<open>M = 0\<close>,
  \<open>eta = +\<infinity>\<close>).
\<close>

theorem subtract_self:
  assumes "is_finite (attr_px a)" "is_finite (attr_py a)" "is_finite (attr_pz a)"
    "is_finite (attr_E a)"
  shows "subtract a (FourVectorObj a) =
    Inr \<lparr>cls = PxPyPzE, attr_px = Fin 0, attr_py = Fin 0, attr_pz = Fin 0, attr_E = Fin 0,
         attr_pt = Fin 0, attr_eta = PInf, attr_phi = Fin 0, attr_M = Fin 0\<rparr>"
  using assms
  by (simp add: subtract_def binary_op_def fsub_self PxPyPzEFourVector_def FourVector_init_def
      calculate_derived_quantities_value fatan2_def copysign_def fin_of_def zero_of_def)

theorem subtract_self_witness:
  "is_finite (Fin 1) \<and> is_finite (Fin 2) \<and> is_finite (Fin 3) \<and> is_finite (Fin 4)
   \<and> map_sum id attr_E (subtract
        \<lparr>cls = PxPyPzE, attr_px = Fin 1, attr_py = Fin 2, attr_pz = Fin 3, attr_E = Fin 4,
         attr_pt = Fin (sqrt 5), attr_eta = Fin (0.5 * ln ((sqrt 14 + 3) / (sqrt 14 - 3))),
         attr_phi = Fin (arctan 2), attr_M = Fin (sqrt 2)\<rparr>
        (FourVectorObj
        \<lparr>cls = PxPyPzE, attr_px = Fin 1, attr_py = Fin 2, attr_pz = Fin 3, attr_E = Fin 4,
         attr_pt = Fin (sqrt 5), attr_eta = Fin (0.5 * ln ((sqrt 14 + 3) / (sqrt 14 - 3))),
         attr_phi = Fin (arctan 2), attr_M = Fin (sqrt 2)\<rparr>)) = Inr (Fin 0)"
  using subtract_self [of "\<lparr>cls = PxPyPzE, attr_px = Fin 1, attr_py = Fin 2, attr_pz = Fin 3,
         attr_E = Fin 4, attr_pt = Fin (sqrt 5),
         attr_eta = Fin (0.5 * ln ((sqrt 14 + 3) / (sqrt 14 - 3))),
         attr_phi = Fin (arctan 2), attr_M = Fin (sqrt 2)\<rparr>"]
  by auto

text \<open>
  C7 as stated fails for the instance built from \<open>(0, 0, 0, inf)\<close>: \<^verbatim>\<open>inf - inf\<close> is NaN,
  so the energy of \<open>a - a\<close> is NaN, which is not zero.
\<close>

theorem subtract_self_counterexample:
  "PxPyPzEFourVector (Fin 0) (Fin 0) (Fin 0) PInf =
     Inr \<lparr>cls = PxPyPzE, attr_px = Fin 0, attr_py = Fin 0, attr_pz = Fin 0, attr_E = PInf,
          attr_pt = Fin 0, attr_eta = PInf, attr_phi = Fin 0, attr_M = PInf\<rparr>
   \<and> map_sum id attr_E (subtract
        \<lparr>cls = PxPyPzE, attr_px = Fin 0, attr_py = Fin 0, attr_pz = Fin 0, attr_E = PInf,
          attr_pt = Fin 0, attr_eta = PInf, attr_phi = Fin 0, attr_M = PInf\<rparr>
        (FourVectorObj
        \<lparr>cls = PxPyPzE, attr_px = Fin 0, attr_py = Fin 0, attr_pz = Fin 0, attr_E = PInf,
          attr_pt = Fin 0, attr_eta = PInf, attr_phi = Fin 0, attr_M = PInf\<rparr>)) = Inr NaN
   \<and> \<not> feq NaN (Fin 0)"
  by (simp add: PxPyPzEFourVector_def FourVector_init_def calculate_derived_quantities_value
      fatan2_def copysign_def fin_of_def zero_of_def subtract_def binary_op_def fsub_def feq_def)

section \<open>Failures\<close>

text \<open>
  C8. For an instance of any of the four classes and any four arguments, \<^verbatim>\<open>set_vector\<close>
  raises \<^verbatim>\<open>AttributeError\<close> and leaves the instance as it was; so does the method of
  each class taken alone.
\<close>

theorem set_vector_always_fails:
  "set_vector v a b c d = (Inl AttributeError, v)
   \<and> PxPyPzE_set_vector v a b c d = (Inl AttributeError, v)
   \<and> PxPyPzM_set_vector v a b c d = (Inl AttributeError, v)
   \<and> PtEtaPhiE_set_vector v a b c d = (Inl AttributeError, v)
   \<and> PtEtaPhiM_set_vector v a b c d = (Inl AttributeError, v)"
  by (cases "cls v")
    (simp_all add: set_vector_def PxPyPzE_set_vector_def PxPyPzM_set_vector_def
      PtEtaPhiE_set_vector_def PtEtaPhiM_set_vector_def)



end
